theory Spec2Isabelle
  imports Main
begin

section \<open>JavaScript string operations used by the router\<close>

text \<open>
  Strings are lists of characters. The operations below are the ones
  \<^verbatim>\<open>FileBasedRouter.tsx\<close> calls on strings; each works position by position, so it
  does not matter here whether a position is a byte or a UTF-16 code unit.
\<close>

definition startsWith :: "string \<Rightarrow> string \<Rightarrow> bool" where
  "startsWith s p = (take (length p) s = p)"

definition endsWith :: "string \<Rightarrow> string \<Rightarrow> bool" where
  "endsWith s suf = (length suf \<le> length s \<and> drop (length s - length suf) s = suf)"

text \<open>
  \<^verbatim>\<open>s.replace(pat, '')\<close> with a string pattern: only the first occurrence of \<open>pat\<close> is
  removed.
\<close>

fun remove_first :: "string \<Rightarrow> string \<Rightarrow> string" where
  "remove_first pat [] = []"
| "remove_first pat (c # cs) =
     (if startsWith (c # cs) pat then drop (length pat) (c # cs)
      else c # remove_first pat cs)"

text \<open>
  \<^verbatim>\<open>s.replace(/suf$/, '')\<close> for a literal \<open>suf\<close>: the regular expression is anchored at
  the end of the input, so it removes \<open>suf\<close> when the string ends with it.
\<close>

definition strip_suffix :: "string \<Rightarrow> string \<Rightarrow> string" where
  "strip_suffix suf s = (if endsWith s suf then take (length s - length suf) s else s)"

text \<open>
  \<^verbatim>\<open>s.replace(/\[([^\]]+)\]/g, ':$1')\<close>. The scan goes left to right. At an opening
  bracket the group takes the longest run of characters other than the closing bracket;
  the match succeeds when that run is not empty and a closing bracket follows it
  (a shorter run would be followed by a character of the run, never by the bracket, so
  backtracking changes nothing). A match is replaced by a colon and the run, and the scan
  goes on after the closing bracket; where there is no match the character is kept.
\<close>

function replace_params :: "string \<Rightarrow> string" where
  "replace_params [] = []"
| "replace_params (c # cs) =
     (if c = CHR ''['' \<and> takeWhile (\<lambda>x. x \<noteq> CHR '']'') cs \<noteq> []
         \<and> dropWhile (\<lambda>x. x \<noteq> CHR '']'') cs \<noteq> []
      then CHR '':'' # takeWhile (\<lambda>x. x \<noteq> CHR '']'') cs
             @ replace_params (tl (dropWhile (\<lambda>x. x \<noteq> CHR '']'') cs))
      else c # replace_params cs)"
  by pat_completeness auto
termination
proof (relation "measure length")
  show "wf (measure length)" by simp
next
  fix c :: char and cs :: string
  have "length (tl (dropWhile (\<lambda>x. x \<noteq> CHR '']'') cs)) \<le> length cs"
    using length_dropWhile_le [of "\<lambda>x. x \<noteq> CHR '']''" cs] by simp
  then show "(tl (dropWhile (\<lambda>x. x \<noteq> CHR '']'') cs), c # cs) \<in> measure length"
    by simp
next
  fix c :: char and cs :: string
  show "(cs, c # cs) \<in> measure length" by simp
qed

text \<open>\<^verbatim>\<open>s.split(sep)\<close> for a one-character separator: never the empty array.\<close>

fun js_split :: "char \<Rightarrow> string \<Rightarrow> string list" where
  "js_split sep [] = [[]]"
| "js_split sep (c # cs) =
     (if c = sep then [] # js_split sep cs
      else (case js_split sep cs of
              w # ws \<Rightarrow> (c # w) # ws
            | [] \<Rightarrow> [[c]]))"

text \<open>\<^verbatim>\<open>xs.join(sep)\<close>.\<close>

fun js_join :: "string \<Rightarrow> string list \<Rightarrow> string" where
  "js_join sep [] = []"
| "js_join sep [x] = x"
| "js_join sep (x # y # ys) = x @ sep @ js_join sep (y # ys)"

section \<open>The path resolver\<close>

definition BASE_PAGES_PATH :: string where
  "BASE_PAGES_PATH = ''/src/pages''"

text \<open>
  \<^verbatim>\<open>pathToRoute\<close>, lines 92 to 99: five replacements in sequence, and the root path
  when nothing is left (the empty string is falsy).
\<close>

definition pathToRoute :: "string \<Rightarrow> string" where
  "pathToRoute filePath =
     (let r = strip_suffix ''/''
                (strip_suffix ''/index''
                  (replace_params
                    (strip_suffix ''.tsx''
                      (remove_first BASE_PAGES_PATH filePath))))
      in if r = [] then ''/'' else r)"

section \<open>JavaScript values\<close>

text \<open>
  The data a preload function resolves to and the reason a promise rejects with are
  arbitrary JavaScript values (\<^verbatim>\<open>unknown\<close>). The model has the primitive values, with
  numbers restricted to the integers and \<^verbatim>\<open>NaN\<close>, plain objects as lists of properties,
  \<open>JError m\<close> for an \<^verbatim>\<open>Error\<close> object whose \<^verbatim>\<open>message\<close> is \<open>m\<close>, and function values.
  Of a function the model keeps what a call with one argument returns: \<open>JFunction t\<close>
  returns \<open>r\<close> for the first pair \<open>(a, r)\<close> of the table \<open>t\<close> whose \<open>a\<close> is the argument, and
  \<^verbatim>\<open>undefined\<close> when there is none. Functions that throw are not modelled.
\<close>

datatype js_value =
    JUndefined
  | JNull
  | JBool bool
  | JNumber int
  | JNaN
  | JString string
  | JObject "(string \<times> js_value) list"
  | JError string
  | JFunction "(js_value \<times> js_value) list"

text \<open>The conversion to boolean that \<^verbatim>\<open>if (v)\<close> applies.\<close>

fun truthy :: "js_value \<Rightarrow> bool" where
  "truthy JUndefined = False"
| "truthy JNull = False"
| "truthy (JBool b) = b"
| "truthy (JNumber n) = (n \<noteq> 0)"
| "truthy JNaN = False"
| "truthy (JString s) = (s \<noteq> [])"
| "truthy (JObject fs) = True"
| "truthy (JError m) = True"
| "truthy (JFunction t) = True"

text \<open>
  What evaluating an expression gives: a value, or an exception with the value thrown.
\<close>

datatype 'a completion = Returns 'a | Throws js_value

text \<open>
  The property read \<^verbatim>\<open>v.message\<close>: a \<^verbatim>\<open>TypeError\<close> on \<^verbatim>\<open>undefined\<close> and \<^verbatim>\<open>null\<close>, the
  property of an object, and \<^verbatim>\<open>undefined\<close> on the other primitive values, which have no
  such property.
\<close>

fun get_message :: "js_value \<Rightarrow> js_value completion" where
  "get_message JUndefined = Throws (JError ''Cannot read properties of undefined'')"
| "get_message JNull = Throws (JError ''Cannot read properties of null'')"
| "get_message (JError m) = Returns (JString m)"
| "get_message (JObject fs) =
     Returns (case map_of fs ''message'' of Some v \<Rightarrow> v | None \<Rightarrow> JUndefined)"
| "get_message v = Returns JUndefined"

section \<open>Components, elements and route objects\<close>

text \<open>
  A component is one of the three generic fallbacks of lines 12 to 22, or
  \<^verbatim>\<open>React.lazy\<close> of the loader a glob map holds under a key; the constructor records
  which of the maps \<^verbatim>\<open>_pages\<close>, \<^verbatim>\<open>_layouts\<close>, \<^verbatim>\<open>_loading\<close>, \<^verbatim>\<open>_error\<close> the loader
  came from.
\<close>

datatype component =
    GenericLayout
  | GenericLoading
  | GenericErrorBoundaryPlaceholder
  | LazyPage string
  | LazyLayout string
  | LazyLoading string
  | LazyError string

text \<open>
  The JSX the builder writes:
  \<^item> \<open>Outlet\<close> is \<^verbatim>\<open><Outlet />\<close>;
  \<^item> \<open>Comp C\<close> is \<^verbatim>\<open><C />\<close>;
  \<^item> \<open>LayoutEl L e\<close> is \<^verbatim>\<open><L children={e} />\<close>;
  \<^item> \<open>Suspense f e\<close> is \<^verbatim>\<open><React.Suspense fallback={f}>e</React.Suspense>\<close>;
  \<^item> \<open>ErrorBoundary f e\<close> is \<^verbatim>\<open><ErrorBoundary fallback={f}>e</ErrorBoundary>\<close>;
  \<^item> \<open>DataLoaderEl C L d\<close> is \<^verbatim>\<open><DataLoaderComponent Component={C} LoadingComponent={L}
    dataFunctionImportModule={d} />\<close>, where \<open>d\<close> is \<open>None\<close> for \<^verbatim>\<open>null\<close> and \<open>Some k\<close>
    for the promise that calling the loader \<^verbatim>\<open>_data[k]\<close> returned;
  \<^item> \<open>CompInitialData C v\<close> is \<^verbatim>\<open><C initialData={v} />\<close>;
  \<^item> \<open>ErrorDiv v\<close> is \<^verbatim>\<open><div>Error: {v}</div>\<close>.
\<close>

datatype element =
    Outlet
  | Comp component
  | LayoutEl component element
  | Suspense element element
  | ErrorBoundary element element
  | DataLoaderEl component component "string option"
  | CompInitialData component js_value
  | ErrorDiv js_value

text \<open>
  React Router's \<^verbatim>\<open>RouteObject\<close>, with the four properties the builder sets. A property
  that an object literal leaves out is \<open>None\<close>.
\<close>

datatype RouteObject =
  RouteObject (path: "string option") (index: "bool option") (element: element)
    (children: "RouteObject list option")

text \<open>
  The five maps that \<^verbatim>\<open>import.meta.glob\<close> builds (lines 72 to 90) are made by the
  bundler, outside this file. The builder reads the keys of \<^verbatim>\<open>_pages\<close> in order
  (\<^verbatim>\<open>Object.keys\<close>), and of the other four only whether a key is present, so each map is
  given by the list of its keys.
\<close>

record globs =
  glob_pages :: "string list"
  glob_layouts :: "string list"
  glob_loading :: "string list"
  glob_error :: "string list"
  glob_data :: "string list"

section \<open>The route tree builder\<close>

text \<open>Lines 103 to 110: the collaborators of the base directory.\<close>

definition RootLayout :: "globs \<Rightarrow> component" where
  "RootLayout g =
     (if BASE_PAGES_PATH @ ''/layout.tsx'' \<in> set (glob_layouts g)
      then LazyLayout (BASE_PAGES_PATH @ ''/layout.tsx'')
      else GenericLayout)"

definition hasRootError :: "globs \<Rightarrow> bool" where
  "hasRootError g = (BASE_PAGES_PATH @ ''/error.tsx'' \<in> set (glob_error g))"

definition RootErrorBoundary :: "globs \<Rightarrow> component" where
  "RootErrorBoundary g =
     (if hasRootError g then LazyError (BASE_PAGES_PATH @ ''/error.tsx'')
      else GenericErrorBoundaryPlaceholder)"

text \<open>Lines 116 to 122: the element of the root route.\<close>

definition rootElement :: "globs \<Rightarrow> element" where
  "rootElement g =
     (if hasRootError g
      then ErrorBoundary (Comp (RootErrorBoundary g)) (LayoutEl (RootLayout g) Outlet)
      else LayoutEl (RootLayout g) Outlet)"

text \<open>
  \<^verbatim>\<open>currentChildren?.push(x)\<close>: the cursor \<^verbatim>\<open>currentChildren\<close> is an array or
  \<^verbatim>\<open>undefined\<close> (\<open>None\<close>), and the optional call does nothing on \<^verbatim>\<open>undefined\<close>.
\<close>

definition push :: "RouteObject list option \<Rightarrow> RouteObject \<Rightarrow> RouteObject list option" where
  "push currentChildren x = map_option (\<lambda>cs. cs @ [x]) currentChildren"

text \<open>
  \<^verbatim>\<open>currentChildren?.some(child => child.path === carriedPath)\<close>, lines 217 to 219;
  \<^verbatim>\<open>undefined\<close> counts as false in the test of line 221.
\<close>

definition isLayoutCreated :: "RouteObject list option \<Rightarrow> string \<Rightarrow> bool" where
  "isLayoutCreated currentChildren carriedPath =
     (case currentChildren of
        None \<Rightarrow> False
      | Some cs \<Rightarrow> list_ex (\<lambda>child. path child = Some carriedPath) cs)"

text \<open>
  Lines 222 to 225 take the first child with the carried path and move the cursor to its
  \<^verbatim>\<open>children\<close>; what the rest of the walk then does to that array happens inside that
  child. \<open>inLastChildren carriedPath k cs\<close> is the array \<open>cs\<close> after \<open>k\<close> has acted on the
  \<^verbatim>\<open>children\<close> of its first element with that path.
\<close>

fun inLastChildren ::
  "string \<Rightarrow> (RouteObject list option \<Rightarrow> RouteObject list option) \<Rightarrow> RouteObject list
    \<Rightarrow> RouteObject list" where
  "inLastChildren carriedPath k [] = []"
| "inLastChildren carriedPath k (child # cs) =
     (if path child = Some carriedPath
      then RouteObject (path child) (index child) (element child) (k (children child)) # cs
      else child # inLastChildren carriedPath k cs)"

text \<open>Lines 227 to 254: the collaborators and the element of a new directory node.\<close>

definition Layout :: "globs \<Rightarrow> string \<Rightarrow> component" where
  "Layout g carriedPath =
     (if BASE_PAGES_PATH @ carriedPath @ ''/layout.tsx'' \<in> set (glob_layouts g)
      then LazyLayout (BASE_PAGES_PATH @ carriedPath @ ''/layout.tsx'')
      else GenericLayout)"

definition hasError :: "globs \<Rightarrow> string \<Rightarrow> bool" where
  "hasError g carriedPath =
     (BASE_PAGES_PATH @ carriedPath @ ''/error.tsx'' \<in> set (glob_error g))"

definition ErrorBoundaryComponent :: "globs \<Rightarrow> string \<Rightarrow> component" where
  "ErrorBoundaryComponent g carriedPath =
     (if hasError g carriedPath then LazyError (BASE_PAGES_PATH @ carriedPath @ ''/error.tsx'')
      else GenericErrorBoundaryPlaceholder)"

definition directoryElement :: "globs \<Rightarrow> component \<Rightarrow> string \<Rightarrow> element" where
  "directoryElement g LoadingComponent carriedPath =
     (if hasError g carriedPath
      then ErrorBoundary (Comp (ErrorBoundaryComponent g carriedPath))
             (Suspense (Comp LoadingComponent) (LayoutEl (Layout g carriedPath) Outlet))
      else Suspense (Comp LoadingComponent) (LayoutEl (Layout g carriedPath) Outlet))"

text \<open>Lines 194 to 213: the leaf that an entry below a directory gets.\<close>

definition nestedLeaf :: "component \<Rightarrow> string \<Rightarrow> string \<Rightarrow> string \<Rightarrow> RouteObject" where
  "nestedLeaf LoadingComponent pageFile currentRoute routeOrFile =
     (if routeOrFile = ''index.tsx''
      then RouteObject None (Some True)
             (Suspense (Comp LoadingComponent) (Comp (LazyPage pageFile))) None
      else RouteObject (Some (last (js_split CHR ''/'' currentRoute))) None
             (Suspense (Comp LoadingComponent) (Comp (LazyPage pageFile))) None)"

text \<open>
  The inner loop, lines 192 to 261, over the remaining parts of \<^verbatim>\<open>splittedRoute\<close>. Its
  state is \<^verbatim>\<open>carriedPath\<close> and the cursor \<^verbatim>\<open>currentChildren\<close>, which refers to one
  array of the tree and only ever moves down into a child. The function returns that
  array as the loop leaves it. Two things in the source are in-place updates through the
  cursor, and the model writes each where the update lands:
  \<^item> found (lines 222 to 225): the rest of the loop acts on the \<^verbatim>\<open>children\<close> of the
    child found, which may be \<^verbatim>\<open>undefined\<close> when that child is a leaf;
  \<^item> not found (lines 227 to 258): the new node is pushed with an empty \<^verbatim>\<open>children\<close>
    array and the rest of the loop fills that array, so the node pushed ends with the
    array as the rest of the loop leaves it. When the cursor is \<^verbatim>\<open>undefined\<close> the push
    does nothing and the new node, with all that is added below it, is not part of the
    tree.
\<close>

fun walk ::
  "globs \<Rightarrow> component \<Rightarrow> string \<Rightarrow> string \<Rightarrow> string \<Rightarrow> string list
    \<Rightarrow> RouteObject list option \<Rightarrow> RouteObject list option" where
  "walk g LoadingComponent pageFile currentRoute carriedPath [] currentChildren =
     currentChildren"
| "walk g LoadingComponent pageFile currentRoute carriedPath (routeOrFile # rest)
      currentChildren =
     (if endsWith routeOrFile ''.tsx''
      then walk g LoadingComponent pageFile currentRoute carriedPath rest
             (push currentChildren
                (nestedLeaf LoadingComponent pageFile currentRoute routeOrFile))
      else if isLayoutCreated currentChildren (carriedPath @ ''/'' @ routeOrFile)
      then map_option
             (inLastChildren (carriedPath @ ''/'' @ routeOrFile)
                (walk g LoadingComponent pageFile currentRoute
                   (carriedPath @ ''/'' @ routeOrFile) rest))
             currentChildren
      else push currentChildren
             (RouteObject (Some (pathToRoute routeOrFile)) None
                (directoryElement g LoadingComponent (carriedPath @ ''/'' @ routeOrFile))
                (walk g LoadingComponent pageFile currentRoute
                   (carriedPath @ ''/'' @ routeOrFile) rest (Some []))))"

text \<open>
  Lines 139 and 140: the key of a collaborator file in the directory of the page.
\<close>

definition collaboratorFilePath :: "string \<Rightarrow> string \<Rightarrow> string" where
  "collaboratorFilePath routeWithoutFile name =
     BASE_PAGES_PATH
       @ (if routeWithoutFile \<noteq> [] then ''/'' @ routeWithoutFile else routeWithoutFile)
       @ ''/'' @ name"

text \<open>Lines 135 to 137.\<close>

definition splittedRoute :: "string \<Rightarrow> string list" where
  "splittedRoute pageFile =
     js_split CHR ''/'' (remove_first (BASE_PAGES_PATH @ ''/'') pageFile)"

text \<open>Line 138: \<^verbatim>\<open>slice(0, -1)\<close> drops the last part.\<close>

definition routeWithoutFile :: "string \<Rightarrow> string" where
  "routeWithoutFile pageFile = js_join ''/'' (butlast (splittedRoute pageFile))"

text \<open>
  Lines 142 to 150; \<open>LoadingComponent_for\<close> and \<open>dataFunctionImportModule_for\<close> are the
  constants \<^verbatim>\<open>LoadingComponent\<close> and \<^verbatim>\<open>dataFunctionImportModule\<close> of one iteration.
\<close>

definition isLoadingComponentCreated :: "globs \<Rightarrow> string \<Rightarrow> bool" where
  "isLoadingComponentCreated g pageFile =
     (collaboratorFilePath (routeWithoutFile pageFile) ''loading.tsx'' \<in> set (glob_loading g))"

definition isDataFunctionComponentSet :: "globs \<Rightarrow> string \<Rightarrow> bool" where
  "isDataFunctionComponentSet g pageFile =
     (collaboratorFilePath (routeWithoutFile pageFile) ''data.ts'' \<in> set (glob_data g))"

definition LoadingComponent_for :: "globs \<Rightarrow> string \<Rightarrow> component" where
  "LoadingComponent_for g pageFile =
     (if isLoadingComponentCreated g pageFile
      then LazyLoading (collaboratorFilePath (routeWithoutFile pageFile) ''loading.tsx'')
      else GenericLoading)"

definition dataFunctionImportModule_for :: "globs \<Rightarrow> string \<Rightarrow> string option" where
  "dataFunctionImportModule_for g pageFile =
     (if isDataFunctionComponentSet g pageFile
      then Some (collaboratorFilePath (routeWithoutFile pageFile) ''data.ts'')
      else None)"

text \<open>Lines 158 to 170 and 175 to 187: the element of a leaf directly under the base.\<close>

definition topLevelElement :: "globs \<Rightarrow> string \<Rightarrow> element" where
  "topLevelElement g pageFile =
     Suspense (Comp (LoadingComponent_for g pageFile))
       (if isDataFunctionComponentSet g pageFile
        then DataLoaderEl (LazyPage pageFile) (LoadingComponent_for g pageFile)
               (dataFunctionImportModule_for g pageFile)
        else Comp (LazyPage pageFile))"

text \<open>
  The body of the outer loop, lines 128 to 262, as a function of the root's
  \<^verbatim>\<open>children\<close> array, where the cursor starts (line 152).
\<close>

definition addPage :: "globs \<Rightarrow> RouteObject list option \<Rightarrow> string \<Rightarrow> RouteObject list option" where
  "addPage g currentChildren pageFile =
     (if length (splittedRoute pageFile) = 1
      then (if splittedRoute pageFile ! 0 = ''index.tsx''
            then push currentChildren
                   (RouteObject None (Some True) (topLevelElement g pageFile) None)
            else push currentChildren
                   (RouteObject (Some (pathToRoute pageFile)) None
                      (topLevelElement g pageFile) None))
      else walk g (LoadingComponent_for g pageFile) pageFile (pathToRoute pageFile) []
             (splittedRoute pageFile) currentChildren)"

text \<open>Lines 112 to 266.\<close>

definition routes :: "globs \<Rightarrow> RouteObject list" where
  "routes g =
     [RouteObject (Some ''/'') None (rootElement g)
        (foldl (addPage g) (Some []) (glob_pages g))]"

section \<open>The data-loading bridge\<close>

text \<open>
  The three state variables of \<^verbatim>\<open>DataLoaderComponent\<close>, lines 33 to 35. The error state
  holds whatever was caught (\<^verbatim>\<open>err as Error\<close> is a cast, not a check), or \<^verbatim>\<open>null\<close>.
\<close>

record bridge_state =
  data :: js_value
  loading :: bool
  error :: js_value

definition initial_state :: bridge_state where
  "initial_state = \<lparr>data = JNull, loading = True, error = JNull\<rparr>"

text \<open>Lines 57 to 67: what the component returns for a state; \<open>None\<close> is \<^verbatim>\<open>null\<close>.\<close>

definition DataLoaderComponent ::
  "component \<Rightarrow> component \<Rightarrow> bridge_state \<Rightarrow> element option completion" where
  "DataLoaderComponent Component LoadingComponent st =
     (if loading st then Returns (Some (Comp LoadingComponent))
      else if truthy (error st) then
        (case get_message (error st) of
           Throws e \<Rightarrow> Throws e
         | Returns m \<Rightarrow> Returns (Some (ErrorDiv m)))
      else if truthy (data st) then Returns (Some (CompInitialData Component (data st)))
      else Returns None)"

text \<open>
  How a promise ends: fulfilled with a value, rejected with a reason, or never settled.
\<close>

datatype 'a promise = Fulfilled 'a | Rejected js_value | Pending

text \<open>
  The property \<^verbatim>\<open>dataFunctionImportModule\<close>: \<^verbatim>\<open>null\<close>, or a promise of a module. Of the
  module the effect uses only the call \<^verbatim>\<open>dataFunctionModule.default()\<close>, so a module is
  given by the promise that call returns. (A call that throws is caught by the same
  \<^verbatim>\<open>catch\<close> as a rejection of the promise awaited, and is modelled as that rejection.)
\<close>

type_synonym data_module = "js_value promise"

text \<open>The calls of the state setters.\<close>

datatype update = SetData js_value | SetLoading bool | SetError js_value

fun is_function :: "js_value \<Rightarrow> bool" where
  "is_function (JFunction t) = True"
| "is_function v = False"

text \<open>
  What a setter of \<^verbatim>\<open>React.useState\<close> stores for its argument: a function is taken as an
  updater, called with the state so far, and what it returns is stored; any other value
  is stored as it is.
\<close>

fun next_state :: "js_value \<Rightarrow> js_value \<Rightarrow> js_value" where
  "next_state prev (JFunction t) =
     (case map_of t prev of Some r \<Rightarrow> r | None \<Rightarrow> JUndefined)"
| "next_state prev v = v"

fun apply_update :: "bridge_state \<Rightarrow> update \<Rightarrow> bridge_state" where
  "apply_update st (SetData v) = st\<lparr>data := next_state (data st) v\<rparr>"
| "apply_update st (SetLoading b) = st\<lparr>loading := b\<rparr>"
| "apply_update st (SetError e) = st\<lparr>error := next_state (error st) e\<rparr>"

text \<open>
  How a block of the asynchronous function ends: it runs to its end, it throws, or it
  waits for ever on a promise that never settles.
\<close>

datatype ending = Done | Thrown js_value | Waiting

text \<open>Lines 40 to 46, the \<^verbatim>\<open>try\<close> block: the setter calls it makes and how it ends.\<close>

definition tryBlock :: "data_module promise option \<Rightarrow> update list \<times> ending" where
  "tryBlock dataFunctionImportModule =
     (case dataFunctionImportModule of
        None \<Rightarrow> ([SetLoading True], Done)
      | Some Pending \<Rightarrow> ([SetLoading True], Waiting)
      | Some (Rejected e) \<Rightarrow> ([SetLoading True], Thrown e)
      | Some (Fulfilled dataFunction) \<Rightarrow>
          (case dataFunction of
             Pending \<Rightarrow> ([SetLoading True], Waiting)
           | Rejected e \<Rightarrow> ([SetLoading True], Thrown e)
           | Fulfilled result \<Rightarrow> ([SetLoading True, SetData result], Done)))"

text \<open>
  Lines 38 to 52, \<^verbatim>\<open>loadData\<close>: the \<^verbatim>\<open>try\<close> block, then \<^verbatim>\<open>catch\<close> when it threw, then
  \<^verbatim>\<open>finally\<close>. The ending is that of the promise \<^verbatim>\<open>loadData()\<close> returns.
\<close>

definition loadData :: "data_module promise option \<Rightarrow> update list \<times> ending" where
  "loadData dataFunctionImportModule =
     (case tryBlock dataFunctionImportModule of
        (us, Done) \<Rightarrow> (us @ [SetLoading False], Done)
      | (us, Thrown e) \<Rightarrow> (us @ [SetError e, SetLoading False], Done)
      | (us, Waiting) \<Rightarrow> (us, Waiting))"

text \<open>The state a mount starts in, and the state after each setter call in turn.\<close>

fun states_from :: "bridge_state \<Rightarrow> update list \<Rightarrow> bridge_state list" where
  "states_from st [] = [st]"
| "states_from st (u # us) = st # states_from (apply_update st u) us"

text \<open>
  One mount of the bridge: the effect of lines 37 to 55 runs \<^verbatim>\<open>loadData\<close> once after the
  first render, and React renders the component again after state changes. Whether it
  renders after each setter call or once for several calls made together, every render
  of the mount is the component's result for one of the states below, the first render
  is the one for the first state, and the render that stays on screen is the one for
  the last state.
\<close>

definition mount_states :: "data_module promise option \<Rightarrow> bridge_state list" where
  "mount_states dataFunctionImportModule =
     states_from initial_state (fst (loadData dataFunctionImportModule))"

definition mount_renders ::
  "component \<Rightarrow> component \<Rightarrow> data_module promise option
    \<Rightarrow> element option completion list" where
  "mount_renders Component LoadingComponent dataFunctionImportModule =
     map (DataLoaderComponent Component LoadingComponent)
       (mount_states dataFunctionImportModule)"

section \<open>Relations and reference definitions used in the statements\<close>

text \<open>
  \<open>extended t t'\<close>: the route object \<open>t'\<close> is \<open>t\<close> with nodes added at the end of children
  arrays only. Every node of \<open>t\<close> is in \<open>t'\<close> at the same position, with the same path,
  index flag and element, and whatever \<open>t'\<close> has more in an array comes after what \<open>t\<close>
  has there. \<open>extended_list\<close> is the same for two arrays of route objects.
\<close>

fun extended :: "RouteObject \<Rightarrow> RouteObject \<Rightarrow> bool"
  and extended_list :: "RouteObject list \<Rightarrow> RouteObject list \<Rightarrow> bool" where
  "extended (RouteObject p i e None) (RouteObject p' i' e' c') =
     (p = p' \<and> i = i' \<and> e = e' \<and> c' = None)"
| "extended (RouteObject p i e (Some cs)) (RouteObject p' i' e' None) = False"
| "extended (RouteObject p i e (Some cs)) (RouteObject p' i' e' (Some cs')) =
     (p = p' \<and> i = i' \<and> e = e' \<and> extended_list cs cs')"
| "extended_list [] ys = True"
| "extended_list (x # xs) [] = False"
| "extended_list (x # xs) (y # ys) = (extended x y \<and> extended_list xs ys)"


section \<open>The path resolver: route patterns\<close>

lemma remove_first_prefix: "p \<noteq> [] \<Longrightarrow> remove_first p (p @ s) = s"
  by (cases p) (simp_all add: startsWith_def)

lemma strip_suffix_append: "strip_suffix suf (s @ suf) = s"
  by (simp add: strip_suffix_def endsWith_def)

lemma endsWith_last: "endsWith s suf \<Longrightarrow> suf \<noteq> [] \<Longrightarrow> last s = last suf"
proof -
  assume e: "endsWith s suf" and n: "suf \<noteq> []"
  from e have le: "length suf \<le> length s" and d: "drop (length s - length suf) s = suf"
    by (simp_all add: endsWith_def)
  from n le have "length s - length suf < length s"
    by (cases suf) simp_all
  then have "last (drop (length s - length suf) s) = last s"
    by (rule last_drop)
  with d show ?thesis by simp
qed

lemma strip_suffix_other_last:
  "s \<noteq> [] \<Longrightarrow> suf \<noteq> [] \<Longrightarrow> last s \<noteq> last suf \<Longrightarrow> strip_suffix suf s = s"
  using endsWith_last [of s suf] by (auto simp: strip_suffix_def)

lemma replace_params_append:
  "CHR ''['' \<notin> set s \<Longrightarrow> replace_params (s @ t) = s @ replace_params t"
  by (induction s) auto

lemma replace_params_plain: "CHR ''['' \<notin> set s \<Longrightarrow> replace_params s = s"
  using replace_params_append [of s "[]"] by simp

lemma replace_params_param:
  assumes "name \<noteq> []" and "CHR '']'' \<notin> set name"
  shows "replace_params (CHR ''['' # name @ CHR '']'' # t) = CHR '':'' # name @ replace_params t"
proof -
  have tw: "takeWhile (\<lambda>x. x \<noteq> CHR '']'') (name @ CHR '']'' # t) = name"
    using assms(2) by (induction name) auto
  have dw: "dropWhile (\<lambda>x. x \<noteq> CHR '']'') (name @ CHR '']'' # t) = CHR '']'' # t"
    using assms(2) by (induction name) auto
  show ?thesis using assms(1) by (simp add: tw dw)
qed

text \<open>
  Claim C3, as the code has it. The resolver knows one special file name, \<^verbatim>\<open>index\<close>; a
  file called \<^verbatim>\<open>page\<close> is a segment like any other and stays in the pattern. For
  directory names \<open>a\<close> and \<open>b\<close> without an opening bracket and a parameter name \<open>i\<close> that is
  not empty and has no closing bracket: \<^verbatim>\<open>base/a/b/page.tsx\<close> yields \<^verbatim>\<open>/a/b/page\<close>,
  \<^verbatim>\<open>base/a/index.tsx\<close> yields \<^verbatim>\<open>/a\<close> (for \<open>a\<close> not empty and not ending in a slash),
  \<^verbatim>\<open>base/[i]/page.tsx\<close> yields \<^verbatim>\<open>/:i/page\<close>, and \<^verbatim>\<open>base/index.tsx\<close> yields \<^verbatim>\<open>/\<close>.
\<close>

theorem pathToRoute_patterns:
  assumes "CHR ''['' \<notin> set a" and "a \<noteq> []" and "last a \<noteq> CHR ''/''"
    and "CHR ''['' \<notin> set b"
    and "i \<noteq> []" and "CHR '']'' \<notin> set i"
  shows "pathToRoute (BASE_PAGES_PATH @ ''/'' @ a @ ''/'' @ b @ ''/page.tsx'')
           = ''/'' @ a @ ''/'' @ b @ ''/page''
       \<and> pathToRoute (BASE_PAGES_PATH @ ''/'' @ a @ ''/index.tsx'') = ''/'' @ a
       \<and> pathToRoute (BASE_PAGES_PATH @ ''/['' @ i @ '']/page.tsx'') = ''/:'' @ i @ ''/page''
       \<and> pathToRoute (BASE_PAGES_PATH @ ''/index.tsx'') = ''/''"
proof -
  have base: "BASE_PAGES_PATH \<noteq> []" by (simp add: BASE_PAGES_PATH_def)
  have r1: "remove_first BASE_PAGES_PATH (BASE_PAGES_PATH @ s) = s" for s
    using base by (rule remove_first_prefix)
  have p1: "pathToRoute (BASE_PAGES_PATH @ ''/'' @ a @ ''/'' @ b @ ''/page.tsx'')
      = ''/'' @ a @ ''/'' @ b @ ''/page''"
  proof -
    have "strip_suffix ''.tsx'' (''/'' @ a @ ''/'' @ b @ ''/page.tsx'')
        = ''/'' @ a @ ''/'' @ b @ ''/page''"
      using strip_suffix_append [of "''.tsx''" "''/'' @ a @ ''/'' @ b @ ''/page''"] by simp
    moreover have "replace_params (''/'' @ a @ ''/'' @ b @ ''/page'')
        = ''/'' @ a @ ''/'' @ b @ ''/page''"
      using assms(1,4) by (intro replace_params_plain) simp
    moreover have "strip_suffix ''/index'' (''/'' @ a @ ''/'' @ b @ ''/page'')
        = ''/'' @ a @ ''/'' @ b @ ''/page''"
      by (rule strip_suffix_other_last) simp_all
    moreover have "strip_suffix ''/'' (''/'' @ a @ ''/'' @ b @ ''/page'')
        = ''/'' @ a @ ''/'' @ b @ ''/page''"
      by (rule strip_suffix_other_last) simp_all
    ultimately show ?thesis
      unfolding pathToRoute_def r1 by (simp add: Let_def)
  qed
  have p2: "pathToRoute (BASE_PAGES_PATH @ ''/'' @ a @ ''/index.tsx'') = ''/'' @ a"
  proof -
    have "strip_suffix ''.tsx'' (''/'' @ a @ ''/index.tsx'') = ''/'' @ a @ ''/index''"
      using strip_suffix_append [of "''.tsx''" "''/'' @ a @ ''/index''"] by simp
    moreover have "replace_params (''/'' @ a @ ''/index'') = ''/'' @ a @ ''/index''"
      using assms(1) by (intro replace_params_plain) simp
    moreover have "strip_suffix ''/index'' (''/'' @ a @ ''/index'') = ''/'' @ a"
      using strip_suffix_append [of "''/index''" "''/'' @ a"] by simp
    moreover have "strip_suffix ''/'' (''/'' @ a) = ''/'' @ a"
      using assms(2,3) by (intro strip_suffix_other_last) simp_all
    ultimately show ?thesis
      unfolding pathToRoute_def r1 by (simp add: Let_def)
  qed
  have p3: "pathToRoute (BASE_PAGES_PATH @ ''/['' @ i @ '']/page.tsx'')
      = ''/:'' @ i @ ''/page''"
  proof -
    have "strip_suffix ''.tsx'' (''/['' @ i @ '']/page.tsx'') = ''/['' @ i @ '']/page''"
      using strip_suffix_append [of "''.tsx''" "''/['' @ i @ '']/page''"] by simp
    moreover have "replace_params (''/['' @ i @ '']/page'') = ''/:'' @ i @ ''/page''"
      using replace_params_param [OF assms(5,6), of "''/page''"] by simp
    moreover have "strip_suffix ''/index'' (''/:'' @ i @ ''/page'') = ''/:'' @ i @ ''/page''"
      by (rule strip_suffix_other_last) simp_all
    moreover have "strip_suffix ''/'' (''/:'' @ i @ ''/page'') = ''/:'' @ i @ ''/page''"
      by (rule strip_suffix_other_last) simp_all
    ultimately show ?thesis
      unfolding pathToRoute_def r1 by (simp add: Let_def)
  qed
  have p4: "pathToRoute (BASE_PAGES_PATH @ ''/index.tsx'') = ''/''"
    unfolding pathToRoute_def r1 by (simp add: strip_suffix_def endsWith_def)
  from p1 p2 p3 p4 show ?thesis by blast
qed

text \<open>The theorem at the names the claim uses: \<open>a\<close>, \<open>b\<close> and \<open>id\<close>.\<close>

theorem pathToRoute_patterns_witness:
  "pathToRoute ''/src/pages/a/b/page.tsx'' = ''/a/b/page''
   \<and> pathToRoute ''/src/pages/a/index.tsx'' = ''/a''
   \<and> pathToRoute ''/src/pages/[id]/page.tsx'' = ''/:id/page''
   \<and> pathToRoute ''/src/pages/index.tsx'' = ''/''"
  using pathToRoute_patterns [of "''a''" "''b''" "''id''"]
  by (simp add: BASE_PAGES_PATH_def)

text \<open>
  Claim C3 as it is written does not hold: the four patterns it lists are not all what
  the resolver yields, since \<^verbatim>\<open>/src/pages/a/b/page.tsx\<close> does not resolve to \<^verbatim>\<open>/a/b\<close> nor
  \<^verbatim>\<open>/src/pages/[id]/page.tsx\<close> to \<^verbatim>\<open>/:id\<close>.
\<close>

theorem pathToRoute_page_counterexample:
  "\<not> (pathToRoute ''/src/pages/a/b/page.tsx'' = ''/a/b''
      \<and> pathToRoute ''/src/pages/a/index.tsx'' = ''/a''
      \<and> pathToRoute ''/src/pages/[id]/page.tsx'' = ''/:id''
      \<and> pathToRoute ''/src/pages/index.tsx'' = ''/'')"
  by (simp add: pathToRoute_def BASE_PAGES_PATH_def strip_suffix_def endsWith_def
      startsWith_def)

section \<open>The route tree builder: arrays only grow at the end\<close>

lemma extended_list_refl_aux:
  "(\<And>x. x \<in> set cs \<Longrightarrow> extended x x) \<Longrightarrow> extended_list cs cs"
  by (induction cs) auto

lemma extended_refl: "extended t t"
proof (induction t)
  case (RouteObject p i e c)
  then show ?case
    by (cases c) (auto intro: extended_list_refl_aux)
qed

lemma extended_list_refl: "extended_list cs cs"
  by (rule extended_list_refl_aux) (rule extended_refl)

lemma extended_list_append: "extended_list cs (cs @ zs)"
  by (induction cs) (auto simp: extended_refl)

lemma extended_list_trans_aux:
  "(\<And>x y z. x \<in> set xs \<Longrightarrow> extended x y \<Longrightarrow> extended y z \<Longrightarrow> extended x z)
   \<Longrightarrow> extended_list xs ys \<Longrightarrow> extended_list ys zs \<Longrightarrow> extended_list xs zs"
proof (induction xs arbitrary: ys zs)
  case Nil
  then show ?case by simp
next
  case (Cons x xs)
  from Cons.prems(2) obtain y ys' where ys: "ys = y # ys'"
    by (cases ys) auto
  from Cons.prems(3) ys obtain z zs' where zs: "zs = z # zs'"
    by (cases zs) auto
  from Cons.prems(2,3) ys zs have xy: "extended x y" and yz: "extended y z"
    and l1: "extended_list xs ys'" and l2: "extended_list ys' zs'" by simp_all
  have head: "extended x z"
    using Cons.prems(1) [of x y z] xy yz by simp
  have rest: "extended_list xs zs'"
  proof (rule Cons.IH [OF _ l1 l2])
    fix u v w assume "u \<in> set xs" "extended u v" "extended v w"
    then show "extended u w" using Cons.prems(1) [of u v w] by simp
  qed
  from head rest zs show ?case by simp
qed

lemma extended_trans: "extended a b \<Longrightarrow> extended b c \<Longrightarrow> extended a c"
proof (induction a arbitrary: b c)
  case (RouteObject p i e ch)
  obtain p' i' e' ch' where b: "b = RouteObject p' i' e' ch'" by (cases b)
  obtain p'' i'' e'' ch'' where c: "c = RouteObject p'' i'' e'' ch''" by (cases c)
  show ?case
  proof (cases ch)
    case None
    with RouteObject.prems b c show ?thesis by auto
  next
    case (Some cs)
    with RouteObject.prems(1) b obtain cs' where ch': "ch' = Some cs'"
      by (cases ch') auto
    with RouteObject.prems(2) b c obtain cs'' where ch'': "ch'' = Some cs''"
      by (cases ch'') auto
    have "extended_list cs cs''"
    proof (rule extended_list_trans_aux)
      show "extended_list cs cs'" using RouteObject.prems(1) b Some ch' by simp
      show "extended_list cs' cs''" using RouteObject.prems(2) b c ch' ch'' by simp
      fix x y z assume "x \<in> set cs" "extended x y" "extended y z"
      then show "extended x z"
        using RouteObject.IH [of cs x y z] Some by simp
    qed
    with RouteObject.prems b c Some ch' ch'' show ?thesis by auto
  qed
qed

lemma extended_list_trans:
  "extended_list xs ys \<Longrightarrow> extended_list ys zs \<Longrightarrow> extended_list xs zs"
  by (rule extended_list_trans_aux) (auto intro: extended_trans)


lemma walk_None: "walk g L pageFile currentRoute carriedPath segs None = None"
  by (induction segs arbitrary: carriedPath) (simp_all add: push_def isLayoutCreated_def)

lemma inLastChildren_extended:
  assumes none: "k None = None"
    and some: "\<And>x. \<exists>x'. k (Some x) = Some x' \<and> extended_list x x'"
  shows "extended_list cs (inLastChildren carriedPath k cs)"
proof (induction cs)
  case Nil
  then show ?case by simp
next
  case (Cons child cs)
  show ?case
  proof (cases "path child = Some carriedPath")
    case True
    obtain p i e c where child: "child = RouteObject p i e c" by (cases child)
    have "extended child (RouteObject p i e (k c))"
    proof (cases c)
      case None
      with child none show ?thesis by simp
    next
      case (Some x)
      with some [of x] obtain x' where "k (Some x) = Some x'" "extended_list x x'"
        by blast
      with child Some show ?thesis by simp
    qed
    with True child show ?thesis by (simp add: extended_list_refl)
  next
    case False
    with Cons.IH show ?thesis by (simp add: extended_refl)
  qed
qed

lemma walk_Some:
  "\<exists>cs'. walk g L pageFile currentRoute carriedPath segs (Some cs) = Some cs'
         \<and> extended_list cs cs'"
proof (induction segs arbitrary: carriedPath cs)
  case Nil
  then show ?case by (simp add: extended_list_refl)
next
  case (Cons routeOrFile rest)
  let ?dir = "carriedPath @ ''/'' @ routeOrFile"
  show ?case
  proof (cases "endsWith routeOrFile ''.tsx''")
    case True
    let ?leaf = "nestedLeaf L pageFile currentRoute routeOrFile"
    from Cons.IH [of carriedPath "cs @ [?leaf]"] obtain cs' where
      w: "walk g L pageFile currentRoute carriedPath rest (Some (cs @ [?leaf])) = Some cs'"
      and e: "extended_list (cs @ [?leaf]) cs'" by blast
    have "extended_list cs cs'"
      using extended_list_append [of cs "[?leaf]"] e by (rule extended_list_trans)
    with True w show ?thesis by (simp add: push_def)
  next
    case notfile: False
    show ?thesis
    proof (cases "isLayoutCreated (Some cs) ?dir")
      case True
      have "extended_list cs
              (inLastChildren ?dir (walk g L pageFile currentRoute ?dir rest) cs)"
        by (rule inLastChildren_extended) (rule walk_None, rule Cons.IH)
      with notfile True show ?thesis by simp
    next
      case False
      with notfile show ?thesis by (simp add: push_def extended_list_append)
    qed
  qed
qed

lemma addPage_Some:
  "\<exists>cs'. addPage g (Some cs) pageFile = Some cs' \<and> extended_list cs cs'"
  using walk_Some [of g "LoadingComponent_for g pageFile" pageFile "pathToRoute pageFile"
      "[]" "splittedRoute pageFile" cs]
  by (simp add: addPage_def push_def extended_list_append)

lemma foldl_addPage_Some:
  "\<exists>cs'. foldl (addPage g) (Some cs) ps = Some cs' \<and> extended_list cs cs'"
proof (induction ps arbitrary: cs)
  case Nil
  then show ?case by (simp add: extended_list_refl)
next
  case (Cons pageFile ps)
  from addPage_Some [of g cs pageFile] obtain cs1 where
    a: "addPage g (Some cs) pageFile = Some cs1" and e1: "extended_list cs cs1" by blast
  from Cons.IH [of cs1] obtain cs2 where
    f: "foldl (addPage g) (Some cs1) ps = Some cs2" and e2: "extended_list cs1 cs2" by blast
  from e1 e2 have "extended_list cs cs2" by (rule extended_list_trans)
  with a f show ?case by simp
qed

lemma walk_glob_pages:
  "walk (g\<lparr>glob_pages := ps\<rparr>) L pageFile currentRoute carriedPath segs
     = walk g L pageFile currentRoute carriedPath segs"
proof (induction segs arbitrary: carriedPath)
  case Nil
  show ?case by (rule ext) simp
next
  case (Cons routeOrFile rest)
  show ?case
    by (rule ext)
      (simp add: Cons.IH directoryElement_def hasError_def Layout_def
        ErrorBoundaryComponent_def)
qed

lemma addPage_glob_pages: "addPage (g\<lparr>glob_pages := ps\<rparr>) = addPage g"
  by (intro ext)
    (simp add: addPage_def walk_glob_pages topLevelElement_def LoadingComponent_for_def
      isLoadingComponentCreated_def isDataFunctionComponentSet_def
      dataFunctionImportModule_for_def)

lemma rootElement_glob_pages: "rootElement (g\<lparr>glob_pages := ps\<rparr>) = rootElement g"
  by (simp add: rootElement_def hasRootError_def RootErrorBoundary_def RootLayout_def)

text \<open>
  Claim C8. Children arrays keep discovery order: for every sequence of page entries
  \<open>ps\<close> and every continuation \<open>qs\<close>, the tree built from \<open>ps @ qs\<close> is the tree built from
  \<open>ps\<close> with nodes added at the end of children arrays only. So in every array a node
  that comes from a later entry stands after all its siblings that come from earlier
  entries, whatever their names; nothing is sorted, moved or removed.
\<close>

theorem children_in_discovery_order:
  "extended_list (routes (g\<lparr>glob_pages := ps\<rparr>)) (routes (g\<lparr>glob_pages := ps @ qs\<rparr>))"
proof -
  from foldl_addPage_Some [of g "[]" ps] obtain cs1 where
    f1: "foldl (addPage g) (Some []) ps = Some cs1" by blast
  from foldl_addPage_Some [of g cs1 qs] obtain cs2 where
    f2: "foldl (addPage g) (Some cs1) qs = Some cs2" and e: "extended_list cs1 cs2" by blast
  from f1 f2 e show ?thesis
    by (simp add: routes_def addPage_glob_pages rootElement_glob_pages)
qed

lemmas builder_simps =
  routes_def addPage_def splittedRoute_def routeWithoutFile_def collaboratorFilePath_def
  topLevelElement_def LoadingComponent_for_def dataFunctionImportModule_for_def
  isLoadingComponentCreated_def isDataFunctionComponentSet_def nestedLeaf_def
  directoryElement_def hasError_def Layout_def ErrorBoundaryComponent_def
  isLayoutCreated_def push_def rootElement_def hasRootError_def RootErrorBoundary_def
  RootLayout_def pathToRoute_def BASE_PAGES_PATH_def strip_suffix_def endsWith_def
  startsWith_def

text \<open>
  The theorem for \<^verbatim>\<open>b.tsx\<close> discovered before \<^verbatim>\<open>a.tsx\<close>: the tree for both extends the tree
  for the first, and the root's children are \<^verbatim>\<open>/b\<close> and then \<^verbatim>\<open>/a\<close>.
\<close>

theorem children_in_discovery_order_witness:
  "extended_list
     (routes \<lparr>glob_pages = [''/src/pages/b.tsx''], glob_layouts = [], glob_loading = [],
        glob_error = [], glob_data = []\<rparr>)
     (routes \<lparr>glob_pages = [''/src/pages/b.tsx'', ''/src/pages/a.tsx''], glob_layouts = [],
        glob_loading = [], glob_error = [], glob_data = []\<rparr>)
   \<and> map path
       (the (children (hd
          (routes \<lparr>glob_pages = [''/src/pages/b.tsx'', ''/src/pages/a.tsx''],
             glob_layouts = [], glob_loading = [], glob_error = [], glob_data = []\<rparr>))))
     = [Some ''/b'', Some ''/a'']"
proof -
  have "map path
       (the (children (hd
          (routes \<lparr>glob_pages = [''/src/pages/b.tsx'', ''/src/pages/a.tsx''],
             glob_layouts = [], glob_loading = [], glob_error = [], glob_data = []\<rparr>))))
     = [Some ''/b'', Some ''/a'']"
    by (simp add: builder_simps)
  then show ?thesis
    using children_in_discovery_order
      [where g = "\<lparr>glob_pages = [], glob_layouts = [], glob_loading = [],
                     glob_error = [], glob_data = []\<rparr>"
         and ps = "[''/src/pages/b.tsx'']" and qs = "[''/src/pages/a.tsx'']"]
    by simp
qed

section \<open>The root route\<close>

text \<open>
  Claim C9. Whatever the page entries \<open>ps\<close> are, the builder returns one root route: its
  path is \<^verbatim>\<open>/\<close>, it has a children array, and its element is the layout of the base
  directory (the generic layout when there is none) around an outlet, inside the error
  boundary of the base directory when \<^verbatim>\<open>/src/pages/error.tsx\<close> exists. The element is
  made of the layout and error maps alone: the page entries, over which the loop runs,
  have no part in it.
\<close>

theorem routes_single_root:
  "\<exists>cs. routes (g\<lparr>glob_pages := ps\<rparr>) =
     [RouteObject (Some ''/'') None
        (if ''/src/pages/error.tsx'' \<in> set (glob_error g)
         then ErrorBoundary (Comp (LazyError ''/src/pages/error.tsx''))
                (LayoutEl
                   (if ''/src/pages/layout.tsx'' \<in> set (glob_layouts g)
                    then LazyLayout ''/src/pages/layout.tsx'' else GenericLayout)
                   Outlet)
         else LayoutEl
                (if ''/src/pages/layout.tsx'' \<in> set (glob_layouts g)
                 then LazyLayout ''/src/pages/layout.tsx'' else GenericLayout)
                Outlet)
        (Some cs)]"
proof -
  from foldl_addPage_Some [of g "[]" ps] obtain cs where
    "foldl (addPage g) (Some []) ps = Some cs" by blast
  then show ?thesis
    by (simp add: routes_def addPage_glob_pages rootElement_def hasRootError_def
        RootErrorBoundary_def RootLayout_def BASE_PAGES_PATH_def)
qed

text \<open>
  The theorem with a layout and an error file in the base directory and one page: the
  root is the error boundary around the layout around an outlet.
\<close>

theorem routes_single_root_witness:
  "\<exists>cs. routes \<lparr>glob_pages = [''/src/pages/index.tsx''],
      glob_layouts = [''/src/pages/layout.tsx''], glob_loading = [],
      glob_error = [''/src/pages/error.tsx''], glob_data = []\<rparr>
   = [RouteObject (Some ''/'') None
        (ErrorBoundary (Comp (LazyError ''/src/pages/error.tsx''))
           (LayoutEl (LazyLayout ''/src/pages/layout.tsx'') Outlet))
        (Some cs)]"
  using routes_single_root
    [where g = "\<lparr>glob_pages = [], glob_layouts = [''/src/pages/layout.tsx''],
                   glob_loading = [], glob_error = [''/src/pages/error.tsx''],
                   glob_data = []\<rparr>"
       and ps = "[''/src/pages/index.tsx'']"]
  by simp

section \<open>Directory nodes\<close>




section \<open>Where the builder departs from the claims\<close>

lemma remove_first_no_slash:
  "CHR ''/'' \<notin> set s \<Longrightarrow> remove_first BASE_PAGES_PATH s = s"
  by (induction s) (auto simp: startsWith_def BASE_PAGES_PATH_def)

lemma strip_suffix_no_slash:
  "CHR ''/'' \<notin> set s \<Longrightarrow> suf \<noteq> [] \<Longrightarrow> last suf = CHR ''/'' \<or> hd suf = CHR ''/''
    \<Longrightarrow> strip_suffix suf s = s"
proof -
  assume ns: "CHR ''/'' \<notin> set s" and ne: "suf \<noteq> []"
    and sl: "last suf = CHR ''/'' \<or> hd suf = CHR ''/''"
  have "\<not> endsWith s suf"
  proof
    assume e: "endsWith s suf"
    then have "drop (length s - length suf) s = suf" by (simp add: endsWith_def)
    then have "set suf \<subseteq> set s" using set_drop_subset [of "length s - length suf" s] by simp
    moreover from ne sl have "CHR ''/'' \<in> set suf"
      by (metis last_in_set hd_in_set)
    ultimately show False using ns by auto
  qed
  then show ?thesis by (simp add: strip_suffix_def)
qed

lemma replace_params_set: "set (replace_params s) \<subseteq> insert CHR '':'' (set s)"
proof (induction s rule: replace_params.induct)
  case 1
  show ?case by simp
next
  case (2 c cs)
  show ?case
  proof (cases "c = CHR ''['' \<and> takeWhile (\<lambda>x. x \<noteq> CHR '']'') cs \<noteq> []
         \<and> dropWhile (\<lambda>x. x \<noteq> CHR '']'') cs \<noteq> []")
    case True
    have a: "set (takeWhile (\<lambda>x. x \<noteq> CHR '']'') cs) \<subseteq> set cs"
      by (auto dest: set_takeWhileD)
    have b: "set (tl (dropWhile (\<lambda>x. x \<noteq> CHR '']'') cs)) \<subseteq> set cs"
      using set_dropWhileD [of _ "\<lambda>x. x \<noteq> CHR '']''" cs]
        list.set_sel(2) [of "dropWhile (\<lambda>x. x \<noteq> CHR '']'') cs"] True by blast
    from True "2.IH"(1) a b show ?thesis by auto
  next
    case False
    with "2.IH"(2) show ?thesis by auto
  qed
qed

lemma replace_params_nonempty: "s \<noteq> [] \<Longrightarrow> replace_params s \<noteq> []"
  by (cases s) auto

lemma strip_suffix_tsx_other:
  "\<not> endsWith s ''.tsx'' \<Longrightarrow> strip_suffix ''.tsx'' s = s"
  by (simp add: strip_suffix_def)

lemma pathToRoute_directory_no_slash:
  assumes "routeOrFile \<noteq> []" and "CHR ''/'' \<notin> set routeOrFile"
    and "\<not> endsWith routeOrFile ''.tsx''"
  shows "CHR ''/'' \<notin> set (pathToRoute routeOrFile)"
proof -
  let ?r = "replace_params routeOrFile"
  have ns: "CHR ''/'' \<notin> set ?r"
    using replace_params_set [of routeOrFile] assms(2) by auto
  have ne: "?r \<noteq> []" using assms(1) by (rule replace_params_nonempty)
  have s1: "strip_suffix ''/index'' ?r = ?r"
    using ns by (rule strip_suffix_no_slash) simp_all
  have s2: "strip_suffix ''/'' ?r = ?r"
    using ns by (rule strip_suffix_no_slash) simp_all
  have "pathToRoute routeOrFile = ?r"
    using ne
    by (simp add: pathToRoute_def remove_first_no_slash [OF assms(2)]
        strip_suffix_tsx_other [OF assms(3)] s1 s2)
  with ns show ?thesis by simp
qed

text \<open>
  A directory node made for a directory name (not empty, without a slash, not ending in
  \<^verbatim>\<open>.tsx\<close>) is stored under a path without a slash, and the carried path always has
  one: the search of lines 217 to 219 does not find the node again, at any depth.
\<close>

lemma new_directory_node_not_found_again:
  assumes "routeOrFile \<noteq> []" and "CHR ''/'' \<notin> set routeOrFile"
    and "\<not> endsWith routeOrFile ''.tsx''"
  shows "\<not> isLayoutCreated
            (Some [RouteObject (Some (pathToRoute routeOrFile)) None e sub])
            (carriedPath @ ''/'' @ routeOrFile)"
proof -
  have "CHR ''/'' \<in> set (carriedPath @ ''/'' @ routeOrFile)" by simp
  with pathToRoute_directory_no_slash [OF assms]
  have "pathToRoute routeOrFile \<noteq> carriedPath @ ''/'' @ routeOrFile" by metis
  then show ?thesis by (simp add: isLayoutCreated_def)
qed

text \<open>
  Claim C1 says that entries sharing a directory prefix get one directory node. The code
  looks for an existing node by comparing \<^verbatim>\<open>child.path\<close> with \<^verbatim>\<open>carriedPath\<close>, which
  starts with a slash (\<^verbatim>\<open>/blog\<close>), but stores a new node under
  \<^verbatim>\<open>pathToRoute(routeOrFile)\<close>, which has none (\<^verbatim>\<open>blog\<close>). The search misses the node it
  made before: for the four entries of the specification's scenario the root gets two
  nodes with path \<^verbatim>\<open>blog\<close>, one holding the index leaf and one holding the \<^verbatim>\<open>:slug\<close> leaf.
\<close>

theorem routes_blog_scenario_duplicate_nodes:
  "routes
     \<lparr>glob_pages = [''/src/pages/index.tsx'', ''/src/pages/about.tsx'',
                    ''/src/pages/blog/index.tsx'', ''/src/pages/blog/[slug].tsx''],
      glob_layouts = [], glob_loading = [], glob_error = [], glob_data = []\<rparr>
   = [RouteObject (Some ''/'') None (LayoutEl GenericLayout Outlet)
       (Some
         [RouteObject None (Some True)
            (Suspense (Comp GenericLoading) (Comp (LazyPage ''/src/pages/index.tsx'')))
            None,
          RouteObject (Some ''/about'') None
            (Suspense (Comp GenericLoading) (Comp (LazyPage ''/src/pages/about.tsx'')))
            None,
          RouteObject (Some ''blog'') None
            (Suspense (Comp GenericLoading) (LayoutEl GenericLayout Outlet))
            (Some
              [RouteObject None (Some True)
                 (Suspense (Comp GenericLoading)
                    (Comp (LazyPage ''/src/pages/blog/index.tsx'')))
                 None]),
          RouteObject (Some ''blog'') None
            (Suspense (Comp GenericLoading) (LayoutEl GenericLayout Outlet))
            (Some
              [RouteObject (Some '':slug'') None
                 (Suspense (Comp GenericLoading)
                    (Comp (LazyPage ''/src/pages/blog/[slug].tsx'')))
                 None])])]"
  by (simp add: builder_simps)

text \<open>
  Claim C2 says that a page whose directory has a data entry gets the data-loading bridge.
  The iteration finds the data entry of \<^verbatim>\<open>a/page.tsx\<close> (\<open>isDataFunctionComponentSet\<close> holds),
  but the leaf pushed for an entry below a directory (lines 194 to 213) renders the page
  component alone; only the branch for entries directly under the base (lines 154 to 189)
  puts the bridge in, as the second tree shows.
\<close>

theorem routes_nested_leaf_without_bridge:
  "routes
     \<lparr>glob_pages = [''/src/pages/a/page.tsx''], glob_layouts = [], glob_loading = [],
      glob_error = [], glob_data = [''/src/pages/a/data.ts'']\<rparr>
   = [RouteObject (Some ''/'') None (LayoutEl GenericLayout Outlet)
       (Some
         [RouteObject (Some ''a'') None
            (Suspense (Comp GenericLoading) (LayoutEl GenericLayout Outlet))
            (Some
              [RouteObject (Some ''page'') None
                 (Suspense (Comp GenericLoading)
                    (Comp (LazyPage ''/src/pages/a/page.tsx'')))
                 None])])]
   \<and> isDataFunctionComponentSet
       \<lparr>glob_pages = [''/src/pages/a/page.tsx''], glob_layouts = [], glob_loading = [],
        glob_error = [], glob_data = [''/src/pages/a/data.ts'']\<rparr>
       ''/src/pages/a/page.tsx''
   \<and> routes
     \<lparr>glob_pages = [''/src/pages/page.tsx''], glob_layouts = [], glob_loading = [],
      glob_error = [], glob_data = [''/src/pages/data.ts'']\<rparr>
   = [RouteObject (Some ''/'') None (LayoutEl GenericLayout Outlet)
       (Some
         [RouteObject (Some ''/page'') None
            (Suspense (Comp GenericLoading)
               (DataLoaderEl (LazyPage ''/src/pages/page.tsx'') GenericLoading
                  (Some ''/src/pages/data.ts'')))
            None])]"
  by (simp add: builder_simps)

section \<open>The data-loading bridge: what a mount renders\<close>

lemma next_state_plain: "\<not> is_function v \<Longrightarrow> next_state prev v = v"
  by (cases v) simp_all

lemma falsy_not_function: "\<not> truthy v \<Longrightarrow> \<not> is_function v"
  by (cases v) simp_all

lemmas bridge_simps =
  mount_renders_def mount_states_def loadData_def tryBlock_def initial_state_def
  DataLoaderComponent_def

text \<open>
  Claim C5, as the code has it. When the data function is present and its promise is
  fulfilled with a truthy value \<open>V\<close> that is not a function, the mount renders the loading
  indicator until the last state change and then the target component with
  \<^verbatim>\<open>initialData\<close> equal to \<open>V\<close>; \<^verbatim>\<open>loadData\<close> runs to its end and the last state is not
  loading. (A falsy value fails the test \<^verbatim>\<open>if (data)\<close>, and a function is taken by
  \<^verbatim>\<open>setData\<close> as an updater, so that what is stored is what it returns.)
\<close>

theorem bridge_resolves_truthy:
  assumes "truthy V" and "\<not> is_function V"
  shows "mount_renders Component LoadingComponent (Some (Fulfilled (Fulfilled V)))
           = [Returns (Some (Comp LoadingComponent)),
              Returns (Some (Comp LoadingComponent)),
              Returns (Some (Comp LoadingComponent)),
              Returns (Some (CompInitialData Component V))]
       \<and> loadData (Some (Fulfilled (Fulfilled V)))
           = ([SetLoading True, SetData V, SetLoading False], Done)
       \<and> last (mount_states (Some (Fulfilled (Fulfilled V))))
           = \<lparr>data = V, loading = False, error = JNull\<rparr>"
  using assms by (simp add: bridge_simps next_state_plain)

text \<open>The theorem for the object \<^verbatim>\<open>{ id: 1 }\<close>.\<close>

theorem bridge_resolves_truthy_witness:
  "truthy (JObject [(''id'', JNumber 1)])
   \<and> \<not> is_function (JObject [(''id'', JNumber 1)])
   \<and> mount_renders (LazyPage ''/src/pages/page.tsx'') GenericLoading
        (Some (Fulfilled (Fulfilled (JObject [(''id'', JNumber 1)]))))
      = [Returns (Some (Comp GenericLoading)),
         Returns (Some (Comp GenericLoading)),
         Returns (Some (Comp GenericLoading)),
         Returns (Some (CompInitialData (LazyPage ''/src/pages/page.tsx'')
            (JObject [(''id'', JNumber 1)])))]"
proof -
  have t: "truthy (JObject [(''id'', JNumber 1)])" by simp
  have n: "\<not> is_function (JObject [(''id'', JNumber 1)])" by simp
  from t n
    bridge_resolves_truthy [OF t n, of "LazyPage ''/src/pages/page.tsx''" GenericLoading]
  show ?thesis by blast
qed

text \<open>
  Claim C5 as it is written, for every value, does not hold: when the promise is
  fulfilled with \<^verbatim>\<open>null\<close> the mount ends rendering nothing and never renders the target
  component with that value.
\<close>

theorem bridge_resolves_null_counterexample:
  "last (mount_renders (LazyPage ''/src/pages/page.tsx'') GenericLoading
           (Some (Fulfilled (Fulfilled JNull))))
     = Returns None
   \<and> Returns (Some (CompInitialData (LazyPage ''/src/pages/page.tsx'') JNull))
       \<notin> set (mount_renders (LazyPage ''/src/pages/page.tsx'') GenericLoading
                (Some (Fulfilled (Fulfilled JNull))))"
  by (simp add: bridge_simps)

text \<open>
  Why functions are set apart in claim C5: for a function that returns the string \<^verbatim>\<open>x\<close>
  when called with \<^verbatim>\<open>null\<close>, the state so far, the target component gets \<^verbatim>\<open>x\<close> as
  \<^verbatim>\<open>initialData\<close> and not the function.
\<close>

lemma bridge_resolves_function:
  "last (mount_renders Component LoadingComponent
           (Some (Fulfilled (Fulfilled (JFunction [(JNull, JString ''x'')])))))
     = Returns (Some (CompInitialData Component (JString ''x'')))"
  by (simp add: bridge_simps)

text \<open>
  Claim C10. When the promise of the data function is fulfilled with a falsy value, the
  mount ends with loading false and renders \<^verbatim>\<open>null\<close>: not the target component, not the
  loading indicator and not an error notice.
\<close>

theorem bridge_resolves_falsy:
  assumes "\<not> truthy V"
  shows "mount_renders Component LoadingComponent (Some (Fulfilled (Fulfilled V)))
           = [Returns (Some (Comp LoadingComponent)),
              Returns (Some (Comp LoadingComponent)),
              Returns (Some (Comp LoadingComponent)),
              Returns None]
       \<and> loadData (Some (Fulfilled (Fulfilled V)))
           = ([SetLoading True, SetData V, SetLoading False], Done)
       \<and> last (mount_states (Some (Fulfilled (Fulfilled V))))
           = \<lparr>data = V, loading = False, error = JNull\<rparr>"
  using assms falsy_not_function [of V]
  by (simp add: bridge_simps next_state_plain)

text \<open>
  The theorem for \<^verbatim>\<open>null\<close>, \<^verbatim>\<open>undefined\<close>, \<^verbatim>\<open>0\<close>, the empty string and \<^verbatim>\<open>false\<close>.
\<close>

theorem bridge_resolves_falsy_witness:
  "(\<not> truthy JNull \<and> \<not> truthy JUndefined \<and> \<not> truthy (JNumber 0)
      \<and> \<not> truthy (JString []) \<and> \<not> truthy (JBool False))
   \<and> last (mount_renders (LazyPage ''/src/pages/page.tsx'') GenericLoading
        (Some (Fulfilled (Fulfilled JNull)))) = Returns None
   \<and> last (mount_renders (LazyPage ''/src/pages/page.tsx'') GenericLoading
        (Some (Fulfilled (Fulfilled JUndefined)))) = Returns None
   \<and> last (mount_renders (LazyPage ''/src/pages/page.tsx'') GenericLoading
        (Some (Fulfilled (Fulfilled (JNumber 0))))) = Returns None
   \<and> last (mount_renders (LazyPage ''/src/pages/page.tsx'') GenericLoading
        (Some (Fulfilled (Fulfilled (JString []))))) = Returns None
   \<and> last (mount_renders (LazyPage ''/src/pages/page.tsx'') GenericLoading
        (Some (Fulfilled (Fulfilled (JBool False))))) = Returns None"
proof -
  have f: "\<not> truthy JNull" "\<not> truthy JUndefined" "\<not> truthy (JNumber 0)"
    "\<not> truthy (JString [])" "\<not> truthy (JBool False)"
    by simp_all
  show ?thesis
    using f
      bridge_resolves_falsy [OF f(1), of "LazyPage ''/src/pages/page.tsx''" GenericLoading]
      bridge_resolves_falsy [OF f(2), of "LazyPage ''/src/pages/page.tsx''" GenericLoading]
      bridge_resolves_falsy [OF f(3), of "LazyPage ''/src/pages/page.tsx''" GenericLoading]
      bridge_resolves_falsy [OF f(4), of "LazyPage ''/src/pages/page.tsx''" GenericLoading]
      bridge_resolves_falsy [OF f(5), of "LazyPage ''/src/pages/page.tsx''" GenericLoading]
    by simp
qed

text \<open>
  Claim C6. When the promise of the data function is rejected with an \<^verbatim>\<open>Error\<close> whose
  message is \<open>m\<close>, the mount ends rendering the notice \<^verbatim>\<open><div>Error: m</div>\<close>. No render
  of the mount is the target component, whatever its data. The failure stays inside the
  bridge: the \<^verbatim>\<open>try\<close> block ends by throwing, \<^verbatim>\<open>catch\<close> stores the error in the state, the
  promise of \<^verbatim>\<open>loadData\<close> is fulfilled, and no render throws, so nothing reaches an error
  boundary above the leaf.
\<close>

theorem bridge_rejects_with_error:
  "mount_renders Component LoadingComponent (Some (Fulfilled (Rejected (JError m))))
     = [Returns (Some (Comp LoadingComponent)),
        Returns (Some (Comp LoadingComponent)),
        Returns (Some (Comp LoadingComponent)),
        Returns (Some (ErrorDiv (JString m)))]
   \<and> (\<forall>v. Returns (Some (CompInitialData Component v))
          \<notin> set (mount_renders Component LoadingComponent
                   (Some (Fulfilled (Rejected (JError m))))))
   \<and> (\<forall>e. Throws e
          \<notin> set (mount_renders Component LoadingComponent
                   (Some (Fulfilled (Rejected (JError m))))))
   \<and> tryBlock (Some (Fulfilled (Rejected (JError m))))
       = ([SetLoading True], Thrown (JError m))
   \<and> loadData (Some (Fulfilled (Rejected (JError m))))
       = ([SetLoading True, SetError (JError m), SetLoading False], Done)
   \<and> last (mount_states (Some (Fulfilled (Rejected (JError m)))))
       = \<lparr>data = JNull, loading = False, error = JError m\<rparr>"
  by (simp add: bridge_simps)

text \<open>The theorem for an error with the message \<^verbatim>\<open>boom\<close>.\<close>

theorem bridge_rejects_with_error_witness:
  "last (mount_renders (LazyPage ''/src/pages/page.tsx'') GenericLoading
      (Some (Fulfilled (Rejected (JError ''boom'')))))
     = Returns (Some (ErrorDiv (JString ''boom'')))"
  using bridge_rejects_with_error
    [of "LazyPage ''/src/pages/page.tsx''" GenericLoading "''boom''"]
  by simp

text \<open>
  A rejection with a reason that is not an \<^verbatim>\<open>Error\<close> object lies outside claim C6. With
  \<^verbatim>\<open>null\<close> as the reason the error state stays falsy and the mount ends rendering
  \<^verbatim>\<open>null\<close>.
\<close>

lemma bridge_rejects_with_null:
  "mount_renders Component LoadingComponent (Some (Fulfilled (Rejected JNull)))
     = [Returns (Some (Comp LoadingComponent)),
        Returns (Some (Comp LoadingComponent)),
        Returns (Some (Comp LoadingComponent)),
        Returns None]"
  by (simp add: mount_renders_def mount_states_def loadData_def tryBlock_def initial_state_def
      DataLoaderComponent_def)

text \<open>
  Claim C7, as the code has it. Given \<^verbatim>\<open>null\<close> for the data function, the bridge renders
  the loading indicator first and, once \<^verbatim>\<open>loadData\<close> has set loading to false, renders
  \<^verbatim>\<open>null\<close>: the data is still \<^verbatim>\<open>null\<close>, and the target component is rendered for truthy
  data only.
\<close>

theorem bridge_without_data_function:
  "mount_renders Component LoadingComponent None
     = [Returns (Some (Comp LoadingComponent)),
        Returns (Some (Comp LoadingComponent)),
        Returns None]
   \<and> loadData None = ([SetLoading True, SetLoading False], Done)
   \<and> last (mount_states None) = \<lparr>data = JNull, loading = False, error = JNull\<rparr>"
  by (simp add: bridge_simps)

text \<open>The theorem for one page component and the generic loading component.\<close>

theorem bridge_without_data_function_witness:
  "last (mount_renders (LazyPage ''/src/pages/page.tsx'') GenericLoading None)
     = Returns None"
  using bridge_without_data_function [of "LazyPage ''/src/pages/page.tsx''" GenericLoading]
  by simp

text \<open>
  Claim C7 as it is written does not hold: given \<^verbatim>\<open>null\<close> for the data function, no render
  of the mount is the target component, neither without data (as a leaf without the
  bridge renders it) nor with \<^verbatim>\<open>null\<close> as data.
\<close>

theorem bridge_without_data_function_counterexample:
  "last (mount_renders (LazyPage ''/src/pages/page.tsx'') GenericLoading None)
     \<noteq> Returns (Some (Comp (LazyPage ''/src/pages/page.tsx'')))
   \<and> Returns (Some (Comp (LazyPage ''/src/pages/page.tsx'')))
       \<notin> set (mount_renders (LazyPage ''/src/pages/page.tsx'') GenericLoading None)
   \<and> Returns (Some (CompInitialData (LazyPage ''/src/pages/page.tsx'') JNull))
       \<notin> set (mount_renders (LazyPage ''/src/pages/page.tsx'') GenericLoading None)"
  by (simp add: bridge_simps)

end
